theory Spec2Isabelle
  imports Main "HOL-Library.Product_Lexorder" "HOL-Library.Multiset" "HOL-Library.Char_ord"
    "HOL-Library.List_Lexorder"
begin

section \<open>Text primitives of the host language\<close>

text \<open>
  Text is a list of characters, read as the bytes of its UTF-8 form. The commands
  call the built-in string methods \<^verbatim>\<open>lower\<close>, \<^verbatim>\<open>upper\<close>, \<^verbatim>\<open>strip\<close>, \<^verbatim>\<open>split\<close>, \<^verbatim>\<open>rsplit\<close>,
  \<^verbatim>\<open>join\<close>, the conversion \<^verbatim>\<open>int\<close> and a regular expression with \<^verbatim>\<open>\w\<close>; they are
  modelled here on ASCII text, where they are given by small tables, and leave
  every other byte alone. On text beyond ASCII the built-ins consult the Unicode
  tables, which are outside this development.
\<close>

definition ascii_uppercase :: string where
  "ascii_uppercase = ''ABCDEFGHIJKLMNOPQRSTUVWXYZ''"

definition ascii_lowercase :: string where
  "ascii_lowercase = ''abcdefghijklmnopqrstuvwxyz''"

definition digits :: string where
  "digits = ''0123456789''"

definition lower_char :: "char \<Rightarrow> char" where
  "lower_char c =
     (case map_of (zip ascii_uppercase ascii_lowercase) c of Some d \<Rightarrow> d | None \<Rightarrow> c)"

definition upper_char :: "char \<Rightarrow> char" where
  "upper_char c =
     (case map_of (zip ascii_lowercase ascii_uppercase) c of Some d \<Rightarrow> d | None \<Rightarrow> c)"

definition lower :: "string \<Rightarrow> string" where
  "lower s = map lower_char s"

definition upper :: "string \<Rightarrow> string" where
  "upper s = map upper_char s"

text \<open>\<^verbatim>\<open>sep.join(xs)\<close>.\<close>

fun join :: "string \<Rightarrow> string list \<Rightarrow> string" where
  "join sep [] = []"
| "join sep [x] = x"
| "join sep (x # y # ys) = x @ sep @ join sep (y # ys)"

text \<open>
  \<^verbatim>\<open>str.strip()\<close> removes the characters for which \<^verbatim>\<open>str.isspace\<close> holds from
  both ends; in ASCII these are tab, line feed, vertical tab, form feed, carriage
  return, the four separators \<^verbatim>\<open>0x1C\<close> to \<^verbatim>\<open>0x1F\<close>, and the space.
\<close>

definition whitespace :: string where
  "whitespace =
     [CHR 0x09, CHR 0x0A, CHR 0x0B, CHR 0x0C, CHR 0x0D,
      CHR 0x1C, CHR 0x1D, CHR 0x1E, CHR 0x1F, CHR 0x20]"

definition isspace :: "char \<Rightarrow> bool" where
  "isspace c = (c \<in> set whitespace)"

definition strip :: "string \<Rightarrow> string" where
  "strip s = rev (dropWhile isspace (rev (dropWhile isspace s)))"

text \<open>\<^verbatim>\<open>s.split(sep)\<close> for a separator of one character: never the empty list.\<close>

fun split_sep :: "char \<Rightarrow> string \<Rightarrow> string list" where
  "split_sep sep [] = [[]]"
| "split_sep sep (c # cs) =
     (if c = sep then [] # split_sep sep cs
      else (case split_sep sep cs of
              [] \<Rightarrow> [[c]]
            | p # ps \<Rightarrow> (c # p) # ps))"

text \<open>\<^verbatim>\<open>s.rsplit(sep, 1)\<close>: one split at the last separator, if there is one.\<close>

definition rsplit1 :: "char \<Rightarrow> string \<Rightarrow> string list" where
  "rsplit1 sep s =
     (if sep \<in> set s
      then [rev (drop 1 (dropWhile (\<lambda>c. c \<noteq> sep) (rev s))),
            rev (takeWhile (\<lambda>c. c \<noteq> sep) (rev s))]
      else [s])"

text \<open>
  \<^verbatim>\<open>int(s)\<close> in base ten: optional blanks, an optional sign, then decimal digits
  in which single underscores may separate digits, then optional blanks. The
  blanks skipped by the conversion are tab, line feed, vertical tab, form feed,
  carriage return and space. \<open>None\<close> stands for the raised \<^verbatim>\<open>ValueError\<close>. Integers
  are unbounded; the interpreter's configurable limit on the number of digits of a
  numeral (4300 by default in recent versions) is not modelled.
\<close>

definition int_blank :: "char \<Rightarrow> bool" where
  "int_blank c = (c \<in> set [CHR 0x09, CHR 0x0A, CHR 0x0B, CHR 0x0C, CHR 0x0D, CHR 0x20])"

definition digit_val :: "char \<Rightarrow> int option" where
  "digit_val c = map_of (zip digits [0, 1, 2, 3, 4, 5, 6, 7, 8, 9]) c"

fun dec_value :: "int \<Rightarrow> string \<Rightarrow> int option" where
  "dec_value acc [] = None"
| "dec_value acc (c # cs) =
     (case digit_val c of
        None \<Rightarrow> None
      | Some d \<Rightarrow>
          (case cs of
             [] \<Rightarrow> Some (10 * acc + d)
           | x # xs \<Rightarrow>
               if x = CHR ''_'' then dec_value (10 * acc + d) xs
               else dec_value (10 * acc + d) cs))"

definition py_int :: "string \<Rightarrow> int option" where
  "py_int s =
     (let t = dropWhile int_blank s;
          body = rev (dropWhile int_blank (rev (case t of
                    [] \<Rightarrow> []
                  | c # r \<Rightarrow> if c = CHR ''+'' \<or> c = CHR ''-'' then r else t)))
      in case t of
           [] \<Rightarrow> None
         | c # r \<Rightarrow>
             if c = CHR ''-'' then map_option uminus (dec_value 0 body)
             else dec_value 0 body)"





text \<open>\<^verbatim>\<open>d.get(key, default)\<close> on the result of a lookup.\<close>

definition get_or :: "'a option \<Rightarrow> 'a \<Rightarrow> 'a" where
  "get_or v dflt = (case v of Some x \<Rightarrow> x | None \<Rightarrow> dflt)"

section \<open>Priority policy (\<^verbatim>\<open>Command.validate_priority\<close>)\<close>

datatype error =
    NotFound
  | CorruptData
  | InvalidInput string
  | TaskNotFound string
  | InvalidPriority string

definition PRIORITY_LEVELS :: "string list" where
  "PRIORITY_LEVELS = [''low'', ''medium'', ''high'']"

definition DEFAULT_PRIORITY :: string where
  "DEFAULT_PRIORITY = ''medium''"

definition UNTITLED_NAME :: string where
  "UNTITLED_NAME = ''Untitled''"

text \<open>
  The raised \<^verbatim>\<open>ValueError\<close> is the value \<open>Inl (InvalidPriority msg)\<close>; \<open>msg\<close> is the
  formatted message, built from the argument as given and the accepted levels.
\<close>

definition validate_priority :: "string \<Rightarrow> error + string" where
  "validate_priority priority =
     (let priority_lower = lower priority in
      if priority_lower \<notin> set PRIORITY_LEVELS
      then Inl (InvalidPriority
             (''Invalid priority: '' @ priority @ ''. Must be one of: ''
                @ join '', '' PRIORITY_LEVELS))
      else Inr priority_lower)"

text \<open>
  The specification's "letter-case variant": \<open>s\<close> is \<open>t\<close> with some letters
  capitalised.
\<close>

definition capital_of :: "char \<Rightarrow> char \<Rightarrow> bool" where
  "capital_of c d = ((c, d) \<in> set (zip ascii_uppercase ascii_lowercase))"

definition case_variant :: "string \<Rightarrow> string \<Rightarrow> bool" where
  "case_variant s t = list_all2 (\<lambda>c d. c = d \<or> capital_of c d) s t"

section \<open>Tasks, projects and the project file\<close>

text \<open>
  A task is the object \<^verbatim>\<open>{"done": bool, "title": text, "priority": text}\<close> of the
  project file. The code reads \<^verbatim>\<open>done\<close> and \<^verbatim>\<open>priority\<close> with \<^verbatim>\<open>get\<close> and a default,
  so both may be absent; \<^verbatim>\<open>title\<close> is always read directly. The values have the
  types of the file format.
\<close>

record todo =
  todo_done :: "bool option"
  todo_title :: string
  todo_priority :: "string option"

text \<open>
  A parsed project file: the keys \<^verbatim>\<open>name\<close> and \<^verbatim>\<open>todos\<close>, either of which the
  commands tolerate to be missing.
\<close>

record project =
  project_name :: "string option"
  project_todos :: "todo list option"

text \<open>
  The file at \<^verbatim>\<open>PROJECT_FILE\<close> is absent, holds text that is not JSON, or holds a
  project. The world also records every call of \<^verbatim>\<open>update_project\<close>, the only place
  where the file is opened for writing.
\<close>

datatype project_file = Absent | Corrupt | Stored project

record world =
  disk :: project_file
  writes :: "project list"

definition update_project :: "world \<Rightarrow> project \<Rightarrow> world" where
  "update_project w new_data = w\<lparr>disk := Stored new_data, writes := writes w @ [new_data]\<rparr>"

text \<open>
  \<^verbatim>\<open>read_project_file\<close>: \<open>Inr None\<close> when the file does not exist, the error value for
  the exit on invalid JSON.
\<close>

definition read_project_file :: "world \<Rightarrow> error + project option" where
  "read_project_file w =
     (case disk w of
        Absent \<Rightarrow> Inr None
      | Corrupt \<Rightarrow> Inl CorruptData
      | Stored data \<Rightarrow> Inr (Some data))"

definition get_project_name :: "world \<Rightarrow> error + string" where
  "get_project_name w =
     (case read_project_file w of
        Inl e \<Rightarrow> Inl e
      | Inr None \<Rightarrow> Inr UNTITLED_NAME
      | Inr (Some data) \<Rightarrow>
          (let name = get_or (project_name data) [] in
           Inr (if name \<noteq> [] then name else UNTITLED_NAME)))"


section \<open>Command input\<close>

text \<open>The arguments after the command word, \<^verbatim>\<open>sys.argv[2:]\<close>, are a parameter.\<close>

definition get_command_attributes :: "string list \<Rightarrow> string option" where
  "get_command_attributes attributes =
     (if attributes \<noteq> [] then Some (join '' '' attributes) else None)"

definition get_titles_input :: "string list \<Rightarrow> error + string list" where
  "get_titles_input argv =
     (case get_command_attributes argv of
        None \<Rightarrow> Inl (InvalidInput ''Error: No input provided'')
      | Some titles_input \<Rightarrow>
          if titles_input = [] then Inl (InvalidInput ''Error: No input provided'')
          else
            (let titles = split_sep CHR '','' titles_input;
                 cleaned_titles = map strip (filter (\<lambda>title. strip title \<noteq> []) titles)
             in if cleaned_titles = []
                then Inl (InvalidInput ''Error: No valid input after parsing'')
                else Inr cleaned_titles))"

definition create_todo_item :: "string \<Rightarrow> string \<Rightarrow> error + todo" where
  "create_todo_item title priority =
     (case validate_priority priority of
        Inl e \<Rightarrow> Inl e
      | Inr validated_priority \<Rightarrow>
          Inr \<lparr>todo_done = Some False, todo_title = title,
               todo_priority = Some validated_priority\<rparr>)"

section \<open>The append command (\<^verbatim>\<open>AddCommand\<close>)\<close>

text \<open>
  The pattern \<^verbatim>\<open>--priority=(\w+)\<close> under \<^verbatim>\<open>re.IGNORECASE\<close>. \<open>match_here s\<close> matches
  it at the start of \<open>s\<close> and returns the group and the text after the match;
  the greedy \<^verbatim>\<open>\w+\<close> takes the longest run of word characters.
\<close>

definition wordchars :: string where
  "wordchars = ascii_lowercase @ ascii_uppercase @ digits @ ''_''"

definition priority_flag :: string where
  "priority_flag = ''--priority=''"

definition match_here :: "string \<Rightarrow> (string \<times> string) option" where
  "match_here s =
     (let n = length priority_flag;
          group1 = takeWhile (\<lambda>c. c \<in> set wordchars) (drop n s)
      in if lower (take n s) = priority_flag \<and> group1 \<noteq> []
         then Some (group1, dropWhile (\<lambda>c. c \<in> set wordchars) (drop n s))
         else None)"

text \<open>\<^verbatim>\<open>re.search\<close>: the leftmost match.\<close>

fun re_search :: "string \<Rightarrow> string option" where
  "re_search [] = None"
| "re_search (c # cs) =
     (case match_here (c # cs) of
        Some (group1, rest) \<Rightarrow> Some group1
      | None \<Rightarrow> re_search cs)"

text \<open>\<^verbatim>\<open>re.sub(pattern, '', s)\<close>: every match, from the left, is removed.\<close>

function re_sub :: "string \<Rightarrow> string" where
  "re_sub [] = []"
| "re_sub (c # cs) =
     (case match_here (c # cs) of
        Some (group1, rest) \<Rightarrow> re_sub rest
      | None \<Rightarrow> c # re_sub cs)"
  by pat_completeness auto
termination
proof (relation "measure length")
  show "wf (measure length)" by simp
next
  fix c cs x2 x y
  assume "match_here (c # cs) = Some x2" and "(x, y) = x2"
  then have "y = dropWhile (\<lambda>c. c \<in> set wordchars) (drop (length priority_flag) (c # cs))"
    by (auto simp add: match_here_def Let_def split: if_splits)
  moreover have "length (dropWhile (\<lambda>c. c \<in> set wordchars) (drop (length priority_flag) (c # cs)))
      \<le> length (drop (length priority_flag) (c # cs))"
    by (rule length_dropWhile_le)
  moreover have "length (drop (length priority_flag) (c # cs)) < length (c # cs)"
    by (simp add: priority_flag_def)
  ultimately show "(y, c # cs) \<in> measure length" by simp
next
  fix c cs
  show "(cs, c # cs) \<in> measure length" by simp
qed

definition parse_priority_from_input :: "string \<Rightarrow> string \<times> string" where
  "parse_priority_from_input input_string =
     (case re_search input_string of
        Some group1 \<Rightarrow> (strip (re_sub input_string), lower group1)
      | None \<Rightarrow> (strip input_string, DEFAULT_PRIORITY))"

text \<open>The loop of \<^verbatim>\<open>update_todos\<close> over the cleaned titles, on the copy of the list.\<close>

fun append_items :: "todo list \<Rightarrow> string list \<Rightarrow> todo list" where
  "append_items new_todos [] = new_todos"
| "append_items new_todos (item # items) =
     (let (title, priority) = parse_priority_from_input item;
          new_item = \<lparr>todo_done = Some False, todo_title = title,
                      todo_priority = Some priority\<rparr>
      in append_items (new_todos @ [new_item]) items)"

definition update_todos :: "todo list \<Rightarrow> string list \<Rightarrow> error + todo list" where
  "update_todos todos argv =
     (case get_titles_input argv of
        Inl e \<Rightarrow> Inl e
      | Inr items \<Rightarrow> Inr (append_items todos items))"

datatype report = TasksAdded | PriorityChanged string string string

definition add_run :: "world \<Rightarrow> string list \<Rightarrow> (error + report) \<times> world" where
  "add_run w argv =
     (case disk w of
        Absent \<Rightarrow> (Inl NotFound, w)
      | Corrupt \<Rightarrow> (Inl CorruptData, w)
      | Stored data \<Rightarrow>
          (let name = get_or (project_name data) UNTITLED_NAME;
               todos = get_or (project_todos data) []
           in case update_todos todos argv of
                Inl e \<Rightarrow> (Inl e, w)
              | Inr new_todos \<Rightarrow>
                  (Inr TasksAdded,
                   update_project w
                     \<lparr>project_name = Some name, project_todos = Some new_todos\<rparr>)))"

section \<open>The change-priority command (\<^verbatim>\<open>PrioCommand\<close>)\<close>

definition parse_prio_input :: "string list \<Rightarrow> error + string \<times> string" where
  "parse_prio_input argv =
     (case get_command_attributes argv of
        None \<Rightarrow> Inl (InvalidInput ''Usage: todo prio <task_number_or_title> <priority>'')
      | Some attributes \<Rightarrow>
          if attributes = []
          then Inl (InvalidInput ''Usage: todo prio <task_number_or_title> <priority>'')
          else
            (case rsplit1 CHR '' '' attributes of
               [task_id, priority] \<Rightarrow> Inr (strip task_id, strip priority)
             | _ \<Rightarrow> Inl (InvalidInput
                        ''Error: Please provide both task identifier and priority'')))"

text \<open>The title scan of \<^verbatim>\<open>find_todo_by_identifier\<close>, with the running index.\<close>

fun title_scan :: "string \<Rightarrow> nat \<Rightarrow> todo list \<Rightarrow> (nat \<times> todo) option" where
  "title_scan identifier_lower index [] = None"
| "title_scan identifier_lower index (todo # rest) =
     (if lower (todo_title todo) = identifier_lower then Some (index, todo)
      else title_scan identifier_lower (Suc index) rest)"

text \<open>\<open>None\<close> is the pair \<^verbatim>\<open>(None, None)\<close>.\<close>

definition find_todo_by_identifier :: "todo list \<Rightarrow> string \<Rightarrow> (nat \<times> todo) option" where
  "find_todo_by_identifier todos identifier =
     (case py_int identifier of
        Some n \<Rightarrow>
          (let list_index = n - 1 in
           if 0 \<le> list_index \<and> list_index < int (length todos)
           then Some (nat list_index, todos ! nat list_index)
           else None)
      | None \<Rightarrow> title_scan (lower identifier) 0 todos)"


definition update_todo_priority :: "todo \<Rightarrow> string \<Rightarrow> error + todo" where
  "update_todo_priority todo new_priority =
     (case validate_priority new_priority of
        Inl e \<Rightarrow> Inl e
      | Inr validated_priority \<Rightarrow> Inr (todo\<lparr>todo_priority := Some validated_priority\<rparr>))"

definition prio_run :: "world \<Rightarrow> string list \<Rightarrow> (error + report) \<times> world" where
  "prio_run w argv =
     (case disk w of
        Absent \<Rightarrow> (Inl NotFound, w)
      | Corrupt \<Rightarrow> (Inl CorruptData, w)
      | Stored data \<Rightarrow>
          (let name = get_or (project_name data) UNTITLED_NAME;
               todos = get_or (project_todos data) []
           in case parse_prio_input argv of
                Inl e \<Rightarrow> (Inl e, w)
              | Inr (task_id, new_priority) \<Rightarrow>
                  (case find_todo_by_identifier todos task_id of
                     None \<Rightarrow> (Inl (TaskNotFound task_id), w)
                   | Some (list_index, todo) \<Rightarrow>
                       (let old_priority = get_or (todo_priority todo) DEFAULT_PRIORITY in
                        case update_todo_priority todo new_priority of
                          Inl e \<Rightarrow> (Inl e, w)
                        | Inr updated_todo \<Rightarrow>
                            (Inr (PriorityChanged (todo_title todo) (upper old_priority)
                                    (upper new_priority)),
                             update_project w
                               \<lparr>project_name = Some name,
                                project_todos = Some (todos[list_index := updated_todo])\<rparr>)))))"

section \<open>Sorting (\<^verbatim>\<open>Command.sort_todos_by_priority\<close>)\<close>

definition priority_rank :: "string \<rightharpoonup> nat" where
  "priority_rank = map_of [(''high'', 0), (''medium'', 1), (''low'', 2)]"

text \<open>
  The key is the pair \<^verbatim>\<open>(done, rank)\<close>; pairs are compared lexicographically and
  \<open>False\<close> is below \<open>True\<close>. The built-in \<^verbatim>\<open>sorted\<close> is a stable sort; it is modelled
  by the stable insertion sort \<^const>\<open>sort_key\<close>.
\<close>

definition sort_key_todo :: "todo \<Rightarrow> bool \<times> nat" where
  "sort_key_todo todo =
     (let priority = get_or (todo_priority todo) DEFAULT_PRIORITY;
          priority_value = get_or (priority_rank priority) 1
      in (get_or (todo_done todo) False, priority_value))"

definition sort_todos_by_priority :: "todo list \<Rightarrow> todo list" where
  "sort_todos_by_priority todos = sort_key sort_key_todo todos"


section \<open>The JSON text of the project file\<close>


definition dquote :: char where
  "dquote = CHR 0x22"

definition backslash :: char where
  "backslash = CHR 0x5C"


subsection \<open>Writing\<close>

definition hexdigits :: string where
  "hexdigits = ''0123456789abcdef''"

text \<open>
  With \<^verbatim>\<open>ensure_ascii=False\<close> only the quote, the backslash and the control characters
  below \<^verbatim>\<open>0x20\<close> are escaped.
\<close>

definition ESCAPE_DCT :: "(char \<times> string) list" where
  "ESCAPE_DCT =
     [(backslash, [backslash, backslash]),
      (dquote, [backslash, dquote]),
      (CHR 0x08, [backslash, CHR ''b'']),
      (CHR 0x0C, [backslash, CHR ''f'']),
      (CHR 0x0A, [backslash, CHR ''n'']),
      (CHR 0x0D, [backslash, CHR ''r'']),
      (CHR 0x09, [backslash, CHR ''t''])]"

definition escape_char :: "char \<Rightarrow> string" where
  "escape_char c =
     (case map_of ESCAPE_DCT c of
        Some e \<Rightarrow> e
      | None \<Rightarrow>
          if (of_char c :: nat) < 32
          then [backslash, CHR ''u'', CHR ''0'', CHR ''0'',
                hexdigits ! (of_char c div 16), hexdigits ! (of_char c mod 16)]
          else [c])"

definition encode_basestring :: "string \<Rightarrow> string" where
  "encode_basestring s = dquote # concat (map escape_char s) @ [dquote]"




subsection \<open>Reading\<close>



definition BACKSLASH :: "(char \<times> char) list" where
  "BACKSLASH =
     [(dquote, dquote), (backslash, backslash), (CHR ''/'', CHR ''/''),
      (CHR ''b'', CHR 0x08), (CHR ''f'', CHR 0x0C), (CHR ''n'', CHR 0x0A),
      (CHR ''r'', CHR 0x0D), (CHR ''t'', CHR 0x09)]"

definition hex_val :: "char \<Rightarrow> nat option" where
  "hex_val c =
     map_of (zip ''0123456789abcdefABCDEF''
               [0, 1, 2, 3, 4, 5, 6, 7, 8, 9, 10, 11, 12, 13, 14, 15, 10, 11, 12, 13, 14, 15]) c"

definition hex4 :: "string \<Rightarrow> nat option" where
  "hex4 s =
     (case map hex_val (take 4 s) of
        [Some a, Some b, Some c, Some d] \<Rightarrow> Some (((a * 16 + b) * 16 + c) * 16 + d)
      | _ \<Rightarrow> None)"

text \<open>
  The UTF-8 bytes of a code point. A surrogate that is not part of a pair has no
  UTF-8 form; it is kept in the three-byte form.
\<close>

definition utf8 :: "nat \<Rightarrow> string" where
  "utf8 n =
     (if n < 0x80 then [char_of n]
      else if n < 0x800 then [char_of (0xC0 + n div 64), char_of (0x80 + n mod 64)]
      else if n < 0x10000
        then [char_of (0xE0 + n div 4096), char_of (0x80 + n div 64 mod 64),
              char_of (0x80 + n mod 64)]
      else [char_of (0xF0 + n div 262144), char_of (0x80 + n div 4096 mod 64),
            char_of (0x80 + n div 64 mod 64), char_of (0x80 + n mod 64)])"

text \<open>
  \<^verbatim>\<open>\uXXXX\<close>, called on the text after the \<^verbatim>\<open>u\<close>: the decoded bytes and the number of
  characters read. A high surrogate directly followed by an escaped low surrogate
  is one code point.
\<close>

definition decode_uXXXX :: "string \<Rightarrow> (string \<times> nat) option" where
  "decode_uXXXX s =
     (case hex4 s of
        None \<Rightarrow> None
      | Some uni \<Rightarrow>
          if 0xD800 \<le> uni \<and> uni \<le> 0xDBFF \<and> take 2 (drop 4 s) = [backslash, CHR ''u'']
          then (case hex4 (drop 6 s) of
                  None \<Rightarrow> None
                | Some uni2 \<Rightarrow>
                    if 0xDC00 \<le> uni2 \<and> uni2 \<le> 0xDFFF
                    then Some (utf8 (0x10000 + (uni - 0xD800) * 1024 + (uni2 - 0xDC00)), 10)
                    else Some (utf8 uni, 4))
          else Some (utf8 uni, 4))"

text \<open>
  \<^verbatim>\<open>scanstring\<close>, called after the opening quote: the text up to the closing quote,
  with the escapes decoded, and the rest of the input. A raw control character
  is an error.
\<close>

function scanstring :: "string \<Rightarrow> (string \<times> string) option" where
  "scanstring [] = None"
| "scanstring (c # cs) =
     (if c = dquote then Some ([], cs)
      else if c = backslash then
        (case cs of
           [] \<Rightarrow> None
         | esc # r \<Rightarrow>
             if esc = CHR ''u'' then
               (case decode_uXXXX r of
                  None \<Rightarrow> None
                | Some (bytes, k) \<Rightarrow>
                    map_option (\<lambda>(chunk, rest). (bytes @ chunk, rest)) (scanstring (drop k r)))
             else
               (case map_of BACKSLASH esc of
                  None \<Rightarrow> None
                | Some char \<Rightarrow>
                    map_option (\<lambda>(chunk, rest). (char # chunk, rest)) (scanstring r)))
      else if (of_char c :: nat) < 32 then None
      else map_option (\<lambda>(chunk, rest). (c # chunk, rest)) (scanstring cs))"
  by pat_completeness auto
termination
  by (relation "measure length") auto






subsection \<open>Projects as JSON values\<close>






definition documented_project :: project where
  "documented_project =
     \<lparr>project_name = Some ''My Project'',
      project_todos = Some [\<lparr>todo_done = Some False, todo_title = ''Task 1'',
                             todo_priority = Some ''high''\<rparr>]\<rparr>"

subsection \<open>Notions used in the round-trip proof\<close>





section \<open>Sample data\<close>

definition sample_todos :: "todo list" where
  "sample_todos =
     [\<lparr>todo_done = Some False, todo_title = ''Buy milk'', todo_priority = None\<rparr>,
      \<lparr>todo_done = Some True, todo_title = ''buy MILK'', todo_priority = Some ''high''\<rparr>]"

definition mixed_todos :: "todo list" where
  "mixed_todos =
     [\<lparr>todo_done = Some False, todo_title = ''first'', todo_priority = Some ''medium''\<rparr>,
      \<lparr>todo_done = Some True, todo_title = ''second'', todo_priority = Some ''high''\<rparr>,
      \<lparr>todo_done = Some False, todo_title = ''third'', todo_priority = Some ''low''\<rparr>,
      \<lparr>todo_done = Some False, todo_title = ''fourth'', todo_priority = Some ''high''\<rparr>]"



definition sample_world :: world where
  "sample_world =
     \<lparr>disk = Stored \<lparr>project_name = Some ''Home'', project_todos = Some sample_todos\<rparr>,
      writes = []\<rparr>"

definition empty_world :: world where
  "empty_world =
     \<lparr>disk = Stored \<lparr>project_name = Some ''Home'', project_todos = Some []\<rparr>, writes = []\<rparr>"

section \<open>Observations used in the statements\<close>

text \<open>
  What the commands take from the file: \<^verbatim>\<open>data['todos']\<close> with the empty list when
  the key is missing, and the stored \<^verbatim>\<open>name\<close>.
\<close>

definition stored_todos :: "world \<Rightarrow> todo list" where
  "stored_todos w =
     (case disk w of Stored data \<Rightarrow> get_or (project_todos data) [] | _ \<Rightarrow> [])"

definition stored_name :: "world \<Rightarrow> string option" where
  "stored_name w = (case disk w of Stored data \<Rightarrow> project_name data | _ \<Rightarrow> None)"



section \<open>Facts about the text primitives\<close>

lemma zip_upper_lower_fst: "map fst (zip ascii_uppercase ascii_lowercase) = ascii_uppercase"
  by (simp add: ascii_uppercase_def ascii_lowercase_def)

lemma distinct_ascii_uppercase: "distinct ascii_uppercase"
  by (simp add: ascii_uppercase_def)

lemma upper_lower_disjoint: "c \<in> set ascii_uppercase \<Longrightarrow> c \<notin> set ascii_lowercase"
  by (auto simp add: ascii_uppercase_def ascii_lowercase_def)

lemma capital_of_upper: "capital_of c d \<Longrightarrow> c \<in> set ascii_uppercase"
  unfolding capital_of_def by (rule set_zip_leftD)


lemma lower_char_capital: "capital_of c d \<Longrightarrow> lower_char c = d"
proof -
  assume "capital_of c d"
  then have "map_of (zip ascii_uppercase ascii_lowercase) c = Some d"
    unfolding capital_of_def using distinct_ascii_uppercase zip_upper_lower_fst
    by (simp add: map_of_eq_Some_iff)
  then show ?thesis by (simp add: lower_char_def)
qed

lemma lower_char_other: "c \<notin> set ascii_uppercase \<Longrightarrow> lower_char c = c"
proof -
  assume "c \<notin> set ascii_uppercase"
  then have "c \<notin> fst ` set (zip ascii_uppercase ascii_lowercase)"
    using zip_upper_lower_fst by (metis set_map)
  then have "map_of (zip ascii_uppercase ascii_lowercase) c = None"
    by (simp add: map_of_eq_None_iff)
  then show ?thesis by (simp add: lower_char_def)
qed

lemma lower_char_cases:
  "capital_of c (lower_char c) \<or> (c \<notin> set ascii_uppercase \<and> lower_char c = c)"
proof (cases "map_of (zip ascii_uppercase ascii_lowercase) c")
  case None
  then have "c \<notin> fst ` set (zip ascii_uppercase ascii_lowercase)"
    by (simp add: map_of_eq_None_iff)
  then have "c \<notin> set ascii_uppercase" using zip_upper_lower_fst by (metis set_map)
  then show ?thesis by (simp add: lower_char_other)
next
  case (Some d)
  then have "(c, d) \<in> set (zip ascii_uppercase ascii_lowercase)" by (rule map_of_SomeD)
  with Some show ?thesis by (simp add: lower_char_def capital_of_def)
qed

lemma lower_char_eq_iff:
  "d \<in> set ascii_lowercase \<Longrightarrow> lower_char c = d \<longleftrightarrow> (c = d \<or> capital_of c d)"
  using lower_char_cases [of c] lower_char_capital [of c d] lower_char_other [of d]
    upper_lower_disjoint [of d] by auto

lemma lower_eq_iff:
  "set t \<subseteq> set ascii_lowercase \<Longrightarrow> lower s = t \<longleftrightarrow> case_variant s t"
proof (induction t arbitrary: s)
  case Nil
  then show ?case by (simp add: lower_def case_variant_def)
next
  case (Cons d t)
  show ?case
  proof (cases s)
    case Nil
    then show ?thesis by (simp add: lower_def case_variant_def)
  next
    case (Cons c s')
    have "lower s' = t \<longleftrightarrow> case_variant s' t" using Cons.IH Cons.prems by simp
    moreover have "lower_char c = d \<longleftrightarrow> (c = d \<or> capital_of c d)"
      using Cons.prems by (simp add: lower_char_eq_iff)
    ultimately show ?thesis using Cons
      by (simp add: lower_def case_variant_def)
  qed
qed

lemma levels_lowercase: "t \<in> set PRIORITY_LEVELS \<Longrightarrow> set t \<subseteq> set ascii_lowercase"
  by (auto simp add: PRIORITY_LEVELS_def ascii_lowercase_def)
















section \<open>Priority validation\<close>

text \<open>
  Claim C8. Every letter-case variant of \<^verbatim>\<open>low\<close>, \<^verbatim>\<open>medium\<close> or \<^verbatim>\<open>high\<close> is validated to
  the lowercase level; every other string is rejected with \<open>InvalidPriority\<close>,
  whose message carries the rejected value and the accepted levels. The result is
  a value: validation has no state to change.
\<close>

theorem validate_priority_spec:
  "(case_variant s ''low'' \<longrightarrow> validate_priority s = Inr ''low'') \<and>
   (case_variant s ''medium'' \<longrightarrow> validate_priority s = Inr ''medium'') \<and>
   (case_variant s ''high'' \<longrightarrow> validate_priority s = Inr ''high'') \<and>
   (\<not> case_variant s ''low'' \<and> \<not> case_variant s ''medium'' \<and> \<not> case_variant s ''high'' \<longrightarrow>
      validate_priority s =
        Inl (InvalidPriority
              (''Invalid priority: '' @ s @ ''. Must be one of: low, medium, high'')))"
proof -
  have iff: "\<And>t. t \<in> set PRIORITY_LEVELS \<Longrightarrow> lower s = t \<longleftrightarrow> case_variant s t"
    using levels_lowercase lower_eq_iff by blast
  have l: "lower s = ''low'' \<longleftrightarrow> case_variant s ''low''"
    using iff [of "''low''"] by (simp add: PRIORITY_LEVELS_def)
  have m: "lower s = ''medium'' \<longleftrightarrow> case_variant s ''medium''"
    using iff [of "''medium''"] by (simp add: PRIORITY_LEVELS_def)
  have h: "lower s = ''high'' \<longleftrightarrow> case_variant s ''high''"
    using iff [of "''high''"] by (simp add: PRIORITY_LEVELS_def)
  have mem: "lower s \<in> set PRIORITY_LEVELS \<longleftrightarrow>
      lower s = ''low'' \<or> lower s = ''medium'' \<or> lower s = ''high''"
    by (simp add: PRIORITY_LEVELS_def)
  have j: "join '', '' PRIORITY_LEVELS = ''low, medium, high''"
    by (simp add: PRIORITY_LEVELS_def)
  show ?thesis
    unfolding validate_priority_def Let_def mem j
    using l m h by auto
qed

theorem validate_priority_spec_witness:
  "validate_priority ''LoW'' = Inr ''low'' \<and>
   validate_priority ''Medium'' = Inr ''medium'' \<and>
   validate_priority ''HIGH'' = Inr ''high'' \<and>
   validate_priority ''urgent'' =
     Inl (InvalidPriority ''Invalid priority: urgent. Must be one of: low, medium, high'')"
  using validate_priority_spec [of "''LoW''"] validate_priority_spec [of "''Medium''"]
    validate_priority_spec [of "''HIGH''"] validate_priority_spec [of "''urgent''"]
  by (simp add: case_variant_def capital_of_def ascii_uppercase_def ascii_lowercase_def)

section \<open>Locating a task\<close>

lemma title_scan_Some:
  "title_scan l k ts = Some (i, t) \<Longrightarrow>
     k \<le> i \<and> i - k < length ts \<and> t = ts ! (i - k) \<and> lower (todo_title t) = l \<and>
     (\<forall>j < i - k. lower (todo_title (ts ! j)) \<noteq> l)"
proof (induction ts arbitrary: k)
  case Nil
  then show ?case by simp
next
  case (Cons a ts)
  show ?case
  proof (cases "lower (todo_title a) = l")
    case True
    with Cons.prems show ?thesis by simp
  next
    case False
    with Cons.prems have "title_scan l (Suc k) ts = Some (i, t)" by simp
    from Cons.IH [OF this]
    have ih: "Suc k \<le> i" "i - Suc k < length ts" "t = ts ! (i - Suc k)"
      "lower (todo_title t) = l" "\<forall>j < i - Suc k. lower (todo_title (ts ! j)) \<noteq> l"
      by auto
    from ih(1) have eq: "i - k = Suc (i - Suc k)" by simp
    have "\<forall>j < i - k. lower (todo_title ((a # ts) ! j)) \<noteq> l"
    proof (intro allI impI)
      fix j assume "j < i - k"
      then show "lower (todo_title ((a # ts) ! j)) \<noteq> l"
        using False ih(5) eq by (cases j) auto
    qed
    with ih eq show ?thesis by simp
  qed
qed





section \<open>Sorting by priority\<close>



lemma priority_rank_values:
  "priority_rank ''high'' = Some 0" "priority_rank ''medium'' = Some 1"
  "priority_rank ''low'' = Some 2"
  by (simp_all add: priority_rank_def)

lemma priority_rank_unknown:
  "p \<notin> set PRIORITY_LEVELS \<Longrightarrow> priority_rank p = None"
  by (simp add: priority_rank_def PRIORITY_LEVELS_def)

lemma sorted_pairs_nth:
  fixes xs :: "(bool \<times> nat) list"
  assumes "sorted xs" "i < j" "j < length xs"
  shows "(fst (xs ! i) \<longrightarrow> fst (xs ! j)) \<and>
         (fst (xs ! i) = fst (xs ! j) \<longrightarrow> snd (xs ! i) \<le> snd (xs ! j))"
proof -
  have "xs ! i \<le> xs ! j"
    using assms by (simp add: sorted_iff_nth_mono)
  then show ?thesis
    by (cases "xs ! i"; cases "xs ! j") (auto simp add: less_eq_prod_def)
qed

text \<open>
  Claim C4. Sorting is a stable sort under the key \<open>(done, rank)\<close> with ranks
  \<open>high = 0\<close>, \<open>medium = 1\<close>, \<open>low = 2\<close>: the result is a permutation of the input,
  ordered by the key, in which tasks of equal key keep their input order; no
  complete task precedes an incomplete one, and within a completion bucket the
  ranks do not decrease. The list medium (open), high (done), low (open), high (open)
  sorts to high (open), medium (open), low (open), high (done).
\<close>

theorem sort_todos_by_priority_spec:
  "sorted (map sort_key_todo (sort_todos_by_priority tasks)) \<and>
   mset (sort_todos_by_priority tasks) = mset tasks \<and>
   (\<forall>k. filter (\<lambda>t. sort_key_todo t = k) (sort_todos_by_priority tasks) =
        filter (\<lambda>t. sort_key_todo t = k) tasks) \<and>
   (\<forall>i j. i < j \<and> j < length tasks \<longrightarrow>
      (let a = sort_key_todo (sort_todos_by_priority tasks ! i);
           b = sort_key_todo (sort_todos_by_priority tasks ! j)
       in (fst a \<longrightarrow> fst b) \<and> (fst a = fst b \<longrightarrow> snd a \<le> snd b))) \<and>
   (\<forall>d x. sort_key_todo \<lparr>todo_done = Some d, todo_title = x, todo_priority = Some ''high''\<rparr> = (d, 0) \<and>
          sort_key_todo \<lparr>todo_done = Some d, todo_title = x, todo_priority = Some ''medium''\<rparr> = (d, 1) \<and>
          sort_key_todo \<lparr>todo_done = Some d, todo_title = x, todo_priority = Some ''low''\<rparr> = (d, 2)) \<and>
   sort_todos_by_priority mixed_todos =
     [mixed_todos ! 3, mixed_todos ! 0, mixed_todos ! 2, mixed_todos ! 1]"
proof (intro conjI allI impI)
  show "sort_todos_by_priority mixed_todos =
     [mixed_todos ! 3, mixed_todos ! 0, mixed_todos ! 2, mixed_todos ! 1]"
    by (simp add: mixed_todos_def sort_todos_by_priority_def sort_key_todo_def get_or_def
        DEFAULT_PRIORITY_def priority_rank_def less_eq_prod_def)
  show "sorted (map sort_key_todo (sort_todos_by_priority tasks))"
    by (simp add: sort_todos_by_priority_def)
  show "mset (sort_todos_by_priority tasks) = mset tasks"
    by (simp add: sort_todos_by_priority_def)
  show "filter (\<lambda>t. sort_key_todo t = k) (sort_todos_by_priority tasks) =
        filter (\<lambda>t. sort_key_todo t = k) tasks" for k
    unfolding sort_todos_by_priority_def by (rule sort_key_stable)
  show "let a = sort_key_todo (sort_todos_by_priority tasks ! i);
           b = sort_key_todo (sort_todos_by_priority tasks ! j)
       in (fst a \<longrightarrow> fst b) \<and> (fst a = fst b \<longrightarrow> snd a \<le> snd b)"
    if "i < j \<and> j < length tasks" for i j
  proof -
    let ?xs = "map sort_key_todo (sort_todos_by_priority tasks)"
    have s: "sorted ?xs" by (simp add: sort_todos_by_priority_def)
    have l: "j < length ?xs" "i < length ?xs" using that by (simp_all add: sort_todos_by_priority_def)
    from sorted_pairs_nth [OF s _ l(1), of i] that l
    show ?thesis by (simp add: Let_def)
  qed
  show "sort_key_todo \<lparr>todo_done = Some d, todo_title = x, todo_priority = Some ''high''\<rparr> = (d, 0)" for d x
    by (simp add: sort_key_todo_def get_or_def priority_rank_def)
  show "sort_key_todo \<lparr>todo_done = Some d, todo_title = x, todo_priority = Some ''medium''\<rparr> = (d, 1)" for d x
    by (simp add: sort_key_todo_def get_or_def priority_rank_def)
  show "sort_key_todo \<lparr>todo_done = Some d, todo_title = x, todo_priority = Some ''low''\<rparr> = (d, 2)" for d x
    by (simp add: sort_key_todo_def get_or_def priority_rank_def)
qed


theorem sort_todos_by_priority_spec_witness:
  "(0::nat) < 3 \<and> 3 < length mixed_todos \<and>
   sort_key_todo (sort_todos_by_priority mixed_todos ! 0) = (False, 0) \<and>
   sort_key_todo (sort_todos_by_priority mixed_todos ! 3) = (True, 0) \<and>
   (let a = sort_key_todo (sort_todos_by_priority mixed_todos ! 0);
        b = sort_key_todo (sort_todos_by_priority mixed_todos ! 3)
    in (fst a \<longrightarrow> fst b) \<and> (fst a = fst b \<longrightarrow> snd a \<le> snd b))"
proof -
  have len: "(0::nat) < 3 \<and> 3 < length mixed_todos" by (simp add: mixed_todos_def)
  have keys: "sort_key_todo (mixed_todos ! 3) = (False, 0)"
    "sort_key_todo (mixed_todos ! 1) = (True, 0)"
    by (simp_all add: mixed_todos_def sort_key_todo_def get_or_def priority_rank_def)
  from sort_todos_by_priority_spec [of mixed_todos]
  have order: "sort_todos_by_priority mixed_todos =
     [mixed_todos ! 3, mixed_todos ! 0, mixed_todos ! 2, mixed_todos ! 1]"
    and mono: "\<forall>i j. i < j \<and> j < length mixed_todos \<longrightarrow>
      (let a = sort_key_todo (sort_todos_by_priority mixed_todos ! i);
           b = sort_key_todo (sort_todos_by_priority mixed_todos ! j)
       in (fst a \<longrightarrow> fst b) \<and> (fst a = fst b \<longrightarrow> snd a \<le> snd b))"
    by blast+
  from mono len
  have "let a = sort_key_todo (sort_todos_by_priority mixed_todos ! 0);
        b = sort_key_todo (sort_todos_by_priority mixed_todos ! 3)
    in (fst a \<longrightarrow> fst b) \<and> (fst a = fst b \<longrightarrow> snd a \<le> snd b)"
    by blast
  moreover have "sort_key_todo (sort_todos_by_priority mixed_todos ! 0) = (False, 0)"
    "sort_key_todo (sort_todos_by_priority mixed_todos ! 3) = (True, 0)"
    using keys by (simp_all add: order)
  ultimately show ?thesis using len by blast
qed




section \<open>The two commands\<close>

lemma prio_run_Inr:
  assumes "prio_run w argv = (Inr r, w')"
  shows "\<exists>data task_id new_priority i t v.
     disk w = Stored data \<and>
     parse_prio_input argv = Inr (task_id, new_priority) \<and>
     find_todo_by_identifier (get_or (project_todos data) []) task_id = Some (i, t) \<and>
     validate_priority new_priority = Inr v \<and>
     r = PriorityChanged (todo_title t) (upper (get_or (todo_priority t) DEFAULT_PRIORITY))
           (upper new_priority) \<and>
     w' = update_project w
            \<lparr>project_name = Some (get_or (project_name data) UNTITLED_NAME),
             project_todos =
               Some ((get_or (project_todos data) [])[i := t\<lparr>todo_priority := Some v\<rparr>])\<rparr>"
  using assms
  by (auto simp add: prio_run_def update_todo_priority_def Let_def
      split: project_file.splits sum.splits option.splits prod.splits)




lemma find_todo_by_identifier_Some:
  assumes "find_todo_by_identifier todos ident = Some (i, t)"
  shows "i < length todos \<and> t = todos ! i"
proof (cases "py_int ident")
  case None
  with assms have "title_scan (lower ident) 0 todos = Some (i, t)"
    by (simp add: find_todo_by_identifier_def)
  from title_scan_Some [OF this] show ?thesis by simp
next
  case (Some n)
  with assms show ?thesis
    by (auto simp add: find_todo_by_identifier_def Let_def split: if_splits)
qed

lemma validate_priority_Inr:
  "validate_priority p = Inr v \<Longrightarrow> v = lower p \<and> v \<in> set PRIORITY_LEVELS"
  by (auto simp add: validate_priority_def Let_def split: if_splits)

















lemma stored_todos_update: "stored_todos (update_project w d) = get_or (project_todos d) []"
  by (simp add: stored_todos_def update_project_def)

lemma stored_name_update: "stored_name (update_project w d) = project_name d"
  by (simp add: stored_name_def update_project_def)

lemma get_project_name_stored:
  "disk w \<noteq> Corrupt \<Longrightarrow>
   get_project_name w =
     Inr (if get_or (stored_name w) [] \<noteq> [] then get_or (stored_name w) [] else UNTITLED_NAME)"
  by (cases "disk w")
    (simp_all add: get_project_name_def read_project_file_def stored_name_def Let_def get_or_def)

text \<open>
  Claim C1. A piece with an inline flag whose value is not a level must be rejected
  with \<open>InvalidPriority\<close> before a task is built. The append command does not do so:
  for the piece \<^verbatim>\<open>Buy milk --priority=urgent\<close> it succeeds and writes a task with
  priority \<^verbatim>\<open>urgent\<close>, a value that \<open>validate_priority\<close> and \<open>create_todo_item\<close> reject.
\<close>

theorem append_skips_validation:
  "validate_priority ''urgent'' =
     Inl (InvalidPriority ''Invalid priority: urgent. Must be one of: low, medium, high'') \<and>
   create_todo_item ''Buy milk'' ''urgent'' =
     Inl (InvalidPriority ''Invalid priority: urgent. Must be one of: low, medium, high'') \<and>
   add_run empty_world [''Buy milk --priority=urgent''] =
     (Inr TasksAdded,
      \<lparr>disk = Stored \<lparr>project_name = Some ''Home'',
                      project_todos = Some [\<lparr>todo_done = Some False, todo_title = ''Buy milk'',
                                             todo_priority = Some ''urgent''\<rparr>]\<rparr>,
       writes = [\<lparr>project_name = Some ''Home'',
                  project_todos = Some [\<lparr>todo_done = Some False, todo_title = ''Buy milk'',
                                         todo_priority = Some ''urgent''\<rparr>]\<rparr>]\<rparr>)"
  by code_simp



text \<open>
  Claim C5. A successful change of priority rewrites the file so that the located
  task, still at its position, has the validated priority and its old completion
  flag and title; every other task, the length and so the order of the list are
  as before; and the project name is as before.
\<close>

theorem change_priority_frame:
  assumes "prio_run w argv = (Inr r, w')"
  shows "\<exists>task_id new_priority i v.
     parse_prio_input argv = Inr (task_id, new_priority) \<and>
     find_todo_by_identifier (stored_todos w) task_id = Some (i, stored_todos w ! i) \<and>
     validate_priority new_priority = Inr v \<and> v \<in> set PRIORITY_LEVELS \<and>
     i < length (stored_todos w) \<and>
     length (stored_todos w') = length (stored_todos w) \<and>
     todo_priority (stored_todos w' ! i) = Some v \<and>
     todo_done (stored_todos w' ! i) = todo_done (stored_todos w ! i) \<and>
     todo_title (stored_todos w' ! i) = todo_title (stored_todos w ! i) \<and>
     (\<forall>j < length (stored_todos w). j \<noteq> i \<longrightarrow> stored_todos w' ! j = stored_todos w ! j) \<and>
     stored_name w' = Some (get_or (stored_name w) UNTITLED_NAME) \<and>
     get_project_name w' = get_project_name w"
proof -
  from prio_run_Inr [OF assms] obtain data task_id new_priority i t v where
    d: "disk w = Stored data" and
    p: "parse_prio_input argv = Inr (task_id, new_priority)" and
    f: "find_todo_by_identifier (get_or (project_todos data) []) task_id = Some (i, t)" and
    v: "validate_priority new_priority = Inr v" and
    w': "w' = update_project w
            \<lparr>project_name = Some (get_or (project_name data) UNTITLED_NAME),
             project_todos =
               Some ((get_or (project_todos data) [])[i := t\<lparr>todo_priority := Some v\<rparr>])\<rparr>"
    by blast
  let ?ts = "get_or (project_todos data) []"
  have st: "stored_todos w = ?ts" using d by (simp add: stored_todos_def)
  have sn: "stored_name w = project_name data" using d by (simp add: stored_name_def)
  from find_todo_by_identifier_Some [OF f] have i: "i < length ?ts" and t: "t = ?ts ! i"
    by simp_all
  have st': "stored_todos w' = ?ts[i := t\<lparr>todo_priority := Some v\<rparr>]"
    using w' by (simp add: stored_todos_update get_or_def)
  have sn': "stored_name w' = Some (get_or (project_name data) UNTITLED_NAME)"
    using w' by (simp add: stored_name_update)
  have nc: "disk w \<noteq> Corrupt" "disk w' \<noteq> Corrupt"
    using d w' by (simp_all add: update_project_def)
  have name: "get_project_name w' = get_project_name w"
    unfolding get_project_name_stored [OF nc(1)] get_project_name_stored [OF nc(2)] sn sn'
    by (cases "project_name data") (simp_all add: get_or_def UNTITLED_NAME_def)
  have i': "i < length (stored_todos w)" using i st by simp
  have found: "find_todo_by_identifier (stored_todos w) task_id = Some (i, stored_todos w ! i)"
    using f t st by simp
  have level: "v \<in> set PRIORITY_LEVELS" using validate_priority_Inr [OF v] by blast
  have len: "length (stored_todos w') = length (stored_todos w)"
    using st st' by simp
  have fields: "todo_priority (stored_todos w' ! i) = Some v"
    "todo_done (stored_todos w' ! i) = todo_done (stored_todos w ! i)"
    "todo_title (stored_todos w' ! i) = todo_title (stored_todos w ! i)"
    using st st' i t by simp_all
  have others: "\<forall>j < length (stored_todos w). j \<noteq> i \<longrightarrow>
      stored_todos w' ! j = stored_todos w ! j"
    using st st' by simp
  have stored: "stored_name w' = Some (get_or (stored_name w) UNTITLED_NAME)"
    using sn sn' by simp
  show ?thesis
  proof (intro exI conjI)
    show "parse_prio_input argv = Inr (task_id, new_priority)" by (rule p)
    show "find_todo_by_identifier (stored_todos w) task_id = Some (i, stored_todos w ! i)"
      by (rule found)
    show "validate_priority new_priority = Inr v" by (rule v)
    show "v \<in> set PRIORITY_LEVELS" by (rule level)
    show "i < length (stored_todos w)" by (rule i')
    show "length (stored_todos w') = length (stored_todos w)" by (rule len)
    show "todo_priority (stored_todos w' ! i) = Some v" by (rule fields(1))
    show "todo_done (stored_todos w' ! i) = todo_done (stored_todos w ! i)" by (rule fields(2))
    show "todo_title (stored_todos w' ! i) = todo_title (stored_todos w ! i)"
      by (rule fields(3))
    show "\<forall>j < length (stored_todos w). j \<noteq> i \<longrightarrow>
      stored_todos w' ! j = stored_todos w ! j" by (rule others)
    show "stored_name w' = Some (get_or (stored_name w) UNTITLED_NAME)" by (rule stored)
    show "get_project_name w' = get_project_name w" by (rule name)
  qed
qed

theorem change_priority_frame_witness:
  "prio_run sample_world [''Buy milk'', ''LOW''] =
     (Inr (PriorityChanged ''Buy milk'' ''MEDIUM'' ''LOW''),
      update_project sample_world
        \<lparr>project_name = Some ''Home'',
         project_todos = Some
           [\<lparr>todo_done = Some False, todo_title = ''Buy milk'', todo_priority = Some ''low''\<rparr>,
            \<lparr>todo_done = Some True, todo_title = ''buy MILK'', todo_priority = Some ''high''\<rparr>]\<rparr>) \<and>
   (\<exists>task_id new_priority i v.
     parse_prio_input [''Buy milk'', ''LOW''] = Inr (task_id, new_priority) \<and>
     find_todo_by_identifier (stored_todos sample_world) task_id =
       Some (i, stored_todos sample_world ! i) \<and>
     validate_priority new_priority = Inr v \<and>
     todo_priority (stored_todos (snd (prio_run sample_world [''Buy milk'', ''LOW''])) ! i) = Some v \<and>
     (\<forall>j < length (stored_todos sample_world). j \<noteq> i \<longrightarrow>
        stored_todos (snd (prio_run sample_world [''Buy milk'', ''LOW''])) ! j =
        stored_todos sample_world ! j))"
proof -
  have run: "prio_run sample_world [''Buy milk'', ''LOW''] =
     (Inr (PriorityChanged ''Buy milk'' ''MEDIUM'' ''LOW''),
      update_project sample_world
        \<lparr>project_name = Some ''Home'',
         project_todos = Some
           [\<lparr>todo_done = Some False, todo_title = ''Buy milk'', todo_priority = Some ''low''\<rparr>,
            \<lparr>todo_done = Some True, todo_title = ''buy MILK'', todo_priority = Some ''high''\<rparr>]\<rparr>)"
    by code_simp
  from change_priority_frame [OF run] show ?thesis
    unfolding run snd_conv by blast
qed








section \<open>Writing and reading the project file\<close>

subsection \<open>Text\<close>

lemma hex_val_hexdigits: "k < 16 \<Longrightarrow> hex_val (hexdigits ! k) = Some k"
proof -
  assume "k < 16"
  then have "k \<in> set [0..<16]" by simp
  moreover have "\<forall>k \<in> set [0..<16]. hex_val (hexdigits ! k) = Some k" by code_simp
  ultimately show ?thesis by blast
qed

lemma hex_val_zero: "hex_val CHR ''0'' = Some 0"
  by (simp add: hex_val_def)

lemma decode_control:
  assumes "n < 32"
  shows "decode_uXXXX (CHR ''0'' # CHR ''0'' # hexdigits ! (n div 16) # hexdigits ! (n mod 16) # t)
    = Some ([char_of n], 4)"
proof -
  have a: "hex_val (hexdigits ! (n div 16)) = Some (n div 16)"
    using assms by (intro hex_val_hexdigits) simp
  have b: "hex_val (hexdigits ! (n mod 16)) = Some (n mod 16)"
    by (intro hex_val_hexdigits) simp
  have "hex4 (CHR ''0'' # CHR ''0'' # hexdigits ! (n div 16) # hexdigits ! (n mod 16) # t) = Some n"
    by (simp add: hex4_def a b hex_val_zero)
  then show ?thesis using assms
    by (simp add: decode_uXXXX_def utf8_def)
qed

lemma escape_dct_keys:
  "map_of ESCAPE_DCT c = Some e \<Longrightarrow>
     e = [backslash, backslash] \<and> c = backslash \<or>
     e = [backslash, dquote] \<and> c = dquote \<or>
     e = [backslash, CHR ''b''] \<and> c = CHR 0x08 \<or>
     e = [backslash, CHR ''f''] \<and> c = CHR 0x0C \<or>
     e = [backslash, CHR ''n''] \<and> c = CHR 0x0A \<or>
     e = [backslash, CHR ''r''] \<and> c = CHR 0x0D \<or>
     e = [backslash, CHR ''t''] \<and> c = CHR 0x09"
  by (auto simp add: ESCAPE_DCT_def split: if_splits)

lemma escape_dct_none:
  "map_of ESCAPE_DCT c = None \<Longrightarrow> c \<noteq> backslash \<and> c \<noteq> dquote"
  by (auto simp add: ESCAPE_DCT_def split: if_splits)

lemma scanstring_escape_char:
  "scanstring (escape_char c @ t) =
     map_option (\<lambda>(chunk, rest). (c # chunk, rest)) (scanstring t)"
proof (cases "map_of ESCAPE_DCT c")
  case (Some e)
  have e: "escape_char c = e" using Some by (simp add: escape_char_def)
  from escape_dct_keys [OF Some] show ?thesis
    unfolding e
    by (elim disjE conjE) (simp_all add: BACKSLASH_def dquote_def backslash_def)
next
  case None
  note not_special = escape_dct_none [OF None]
  show ?thesis
  proof (cases "(of_char c :: nat) < 32")
    case True
    have e: "escape_char c = [backslash, CHR ''u'', CHR ''0'', CHR ''0'',
                hexdigits ! (of_char c div 16), hexdigits ! (of_char c mod 16)]"
      using None True by (simp add: escape_char_def)
    have d: "decode_uXXXX (CHR ''0'' # CHR ''0'' # hexdigits ! (of_char c div 16)
        # hexdigits ! (of_char c mod 16) # t) = Some ([c], 4)"
      using decode_control [OF True, of t] by simp
    show ?thesis unfolding e using d
      by (simp add: dquote_def backslash_def)
  next
    case False
    then have e: "escape_char c = [c]" using None by (simp add: escape_char_def)
    show ?thesis unfolding e using False not_special by simp
  qed
qed

lemma scanstring_escaped:
  "scanstring (concat (map escape_char s) @ dquote # rest) = Some (s, rest)"
proof (induction s)
  case Nil
  show ?case by simp
next
  case (Cons c s)
  have "scanstring (escape_char c @ (concat (map escape_char s) @ dquote # rest)) =
     map_option (\<lambda>(chunk, rest). (c # chunk, rest))
       (scanstring (concat (map escape_char s) @ dquote # rest))"
    by (rule scanstring_escape_char)
  with Cons show ?case by simp
qed

lemma scanstring_basestring:
  "encode_basestring s @ rest = dquote # tl (encode_basestring s) @ rest \<and>
   scanstring (tl (encode_basestring s) @ rest) = Some (s, rest)"
  using scanstring_escaped [of s rest] by (simp add: encode_basestring_def)


subsection \<open>Numbers\<close>








subsection \<open>Dictionaries\<close>
































end
